theory Spec2Isabelle
  imports Main "HOL-Library.Word" "HOL-Library.Multiset"
begin

unbundle bit_operations_syntax

section \<open>Decoder for mesytec VME data words\<close>

text \<open>
  Embedding of \<^verbatim>\<open>decode_mesytec_vme_data.cc\<close>. The unsigned C++ integer types are
  fixed-width words; an assignment to a narrower member truncates, which is \<open>ucast\<close>.
\<close>

type_synonym u8 = "8 word"
type_synonym u16 = "16 word"
type_synonym u32 = "32 word"

subsection \<open>The decoded record\<close>

text \<open>\<^verbatim>\<open>struct DecodedVMEDataWord\<close>, member by member, in declaration order.\<close>

record DecodedVMEDataWord =
  word :: u32
  header_found :: bool
  data_found :: bool
  extended_ts_found :: bool
  fill_word_found :: bool
  eoe_found :: bool
  data_length :: u16
  module_setting :: u8
  module_id :: u8
  channel_address :: u8
  mdpp_flags :: u8
  high_stamp :: u16
  low_stamp :: u32

text \<open>The value-initialised struct of \<^verbatim>\<open>DecodedVMEDataWord result = {};\<close>.\<close>

definition zero_initialized :: DecodedVMEDataWord where
  "zero_initialized =
     \<lparr> word = 0,
       header_found = False, data_found = False, extended_ts_found = False,
       fill_word_found = False, eoe_found = False,
       data_length = 0, module_setting = 0, module_id = 0,
       channel_address = 0, mdpp_flags = 0,
       high_stamp = 0, low_stamp = 0 \<rparr>"

subsection \<open>decode\_mesytec\_vme\_word\<close>

text \<open>
  The body of the function, statement by statement: \<open>result\<close> is threaded through the
  assignments. The five flags are all computed first; then four independent \<open>if\<close>
  statements (none of them an \<open>else\<close> branch of another) fill in fields. Division is
  the unsigned 32-bit division of the source; the conversion to the member's type
  happens on assignment.
\<close>

definition decode_mesytec_vme_word :: "u32 \<Rightarrow> DecodedVMEDataWord" where
  "decode_mesytec_vme_word w =
    (let result = zero_initialized;
         result = result\<lparr>word := w\<rparr>;
         result = result\<lparr>header_found := (w AND 0xC0000000 = 0x40000000)\<rparr>;
         result = result\<lparr>data_found := (w AND 0xF0000000 = 0x10000000
                                          \<or> w AND 0xFF800000 = 0x04000000)\<rparr>;
         result = result\<lparr>extended_ts_found := (w AND 0xFF800000 = 0x04800000)\<rparr>;
         result = result\<lparr>fill_word_found := (w = 0x00000000)\<rparr>;
         result = result\<lparr>eoe_found := (w AND 0xC0000000 = 0xC0000000)\<rparr>;
         result = (if header_found result
                   then result\<lparr>data_length := ucast (w AND 0x000003FF),
                               module_id := ucast ((w AND 0x00FF0000) div 0x10000),
                               module_setting := ucast ((w AND 0x0000FC00) div 0x400)\<rparr>
                   else result);
         result = (if data_found result
                   then result\<lparr>channel_address := ucast ((w AND 0x003F0000) div 0x0010000),
                               mdpp_flags := ucast ((w AND 0x0FC00000) div 0x0040000)\<rparr>
                   else result);
         result = (if extended_ts_found result
                   then result\<lparr>high_stamp := ucast (w AND 0x0000FFFF)\<rparr>
                   else result);
         result = (if eoe_found result
                   then result\<lparr>low_stamp := w AND 0x3FFFFFFF\<rparr>
                   else result)
     in result)"

subsection \<open>print\_decoded\_vme\_word\<close>

text \<open>
  The printer writes the raw word and then exactly one descriptor, chosen by an
  \<open>if / else if\<close> chain over the flags of the record. The six outcomes of that chain
  are the record kinds; \<open>Unrecognized\<close> is the fall-through where no descriptor is
  printed.
\<close>

datatype kind =
  ModuleHeader | DataWord | ExtendedTimestamp | EndOfEvent | FillWord | Unrecognized

definition print_decoded_vme_word_kind :: "DecodedVMEDataWord \<Rightarrow> kind" where
  "print_decoded_vme_word_kind dw =
    (if header_found dw then ModuleHeader
     else if data_found dw then DataWord
     else if extended_ts_found dw then ExtendedTimestamp
     else if eoe_found dw then EndOfEvent
     else if fill_word_found dw then FillWord
     else Unrecognized)"

text \<open>The kind selected for a raw word: decode, then the printer's branch.\<close>

definition decoded_kind :: "u32 \<Rightarrow> kind" where
  "decoded_kind w = print_decoded_vme_word_kind (decode_mesytec_vme_word w)"

subsection \<open>Auxiliary notions for stating the properties\<close>

text \<open>
  The five flags of a record, in the order the struct declares them. Counting the
  \<open>True\<close> entries of this list counts the patterns the word matched.
\<close>

definition found_flags :: "DecodedVMEDataWord \<Rightarrow> bool list" where
  "found_flags dw =
     [header_found dw, data_found dw, extended_ts_found dw, fill_word_found dw, eoe_found dw]"

text \<open>
  The five guarded branches of the printer's chain as data: each guard with the kind
  it selects, in the order the printer tests them.
\<close>

definition pattern_branches :: "DecodedVMEDataWord \<Rightarrow> (bool \<times> kind) list" where
  "pattern_branches dw =
     [(header_found dw, ModuleHeader),
      (data_found dw, DataWord),
      (extended_ts_found dw, ExtendedTimestamp),
      (eoe_found dw, EndOfEvent),
      (fill_word_found dw, FillWord)]"

text \<open>
  An \<open>if / else if\<close> chain over a list of guarded branches taken in list order, with
  \<open>Unrecognized\<close> as the final \<open>else\<close>. It serves to compare the printer's order with
  any other order of the same branches.
\<close>

fun first_match :: "(bool \<times> kind) list \<Rightarrow> kind" where
  "first_match [] = Unrecognized"
| "first_match ((b, k) # bs) = (if b then k else first_match bs)"

section \<open>Basic facts about the decoder\<close>

subsection \<open>The decoded record in closed form\<close>

text \<open>
  Running the assignments of \<open>decode_mesytec_vme_word\<close> one after the other gives every
  member of the result as an expression in the input word.
\<close>

lemma decode_record:
  "decode_mesytec_vme_word w =
     \<lparr> word = w,
       header_found = (w AND 0xC0000000 = 0x40000000),
       data_found = (w AND 0xF0000000 = 0x10000000 \<or> w AND 0xFF800000 = 0x04000000),
       extended_ts_found = (w AND 0xFF800000 = 0x04800000),
       fill_word_found = (w = 0),
       eoe_found = (w AND 0xC0000000 = 0xC0000000),
       data_length = (if w AND 0xC0000000 = 0x40000000 then ucast (w AND 0x000003FF) else 0),
       module_setting =
         (if w AND 0xC0000000 = 0x40000000 then ucast ((w AND 0x0000FC00) div 0x400) else 0),
       module_id =
         (if w AND 0xC0000000 = 0x40000000 then ucast ((w AND 0x00FF0000) div 0x10000) else 0),
       channel_address =
         (if w AND 0xF0000000 = 0x10000000 \<or> w AND 0xFF800000 = 0x04000000
          then ucast ((w AND 0x003F0000) div 0x10000) else 0),
       mdpp_flags =
         (if w AND 0xF0000000 = 0x10000000 \<or> w AND 0xFF800000 = 0x04000000
          then ucast ((w AND 0x0FC00000) div 0x40000) else 0),
       high_stamp = (if w AND 0xFF800000 = 0x04800000 then ucast (w AND 0x0000FFFF) else 0),
       low_stamp = (if w AND 0xC0000000 = 0xC0000000 then w AND 0x3FFFFFFF else 0) \<rparr>"
proof -
  define r1 where "r1 =
    zero_initialized
      \<lparr>word := w\<rparr>
      \<lparr>header_found := (w AND 0xC0000000 = 0x40000000)\<rparr>
      \<lparr>data_found := (w AND 0xF0000000 = 0x10000000 \<or> w AND 0xFF800000 = 0x04000000)\<rparr>
      \<lparr>extended_ts_found := (w AND 0xFF800000 = 0x04800000)\<rparr>
      \<lparr>fill_word_found := (w = 0x00000000)\<rparr>
      \<lparr>eoe_found := (w AND 0xC0000000 = 0xC0000000)\<rparr>"
  define r2 where "r2 =
    (if header_found r1
     then r1\<lparr>data_length := ucast (w AND 0x000003FF),
             module_id := ucast ((w AND 0x00FF0000) div 0x10000),
             module_setting := ucast ((w AND 0x0000FC00) div 0x400)\<rparr>
     else r1)"
  define r3 where "r3 =
    (if data_found r2
     then r2\<lparr>channel_address := ucast ((w AND 0x003F0000) div 0x0010000),
             mdpp_flags := ucast ((w AND 0x0FC00000) div 0x0040000)\<rparr>
     else r2)"
  define r4 where "r4 =
    (if extended_ts_found r3 then r3\<lparr>high_stamp := ucast (w AND 0x0000FFFF)\<rparr> else r3)"
  define r5 where "r5 =
    (if eoe_found r4 then r4\<lparr>low_stamp := w AND 0x3FFFFFFF\<rparr> else r4)"
  have chain: "decode_mesytec_vme_word w = r5"
    unfolding decode_mesytec_vme_word_def Let_def r5_def r4_def r3_def r2_def r1_def ..
  have s1: "r1 =
     \<lparr> word = w,
       header_found = (w AND 0xC0000000 = 0x40000000),
       data_found = (w AND 0xF0000000 = 0x10000000 \<or> w AND 0xFF800000 = 0x04000000),
       extended_ts_found = (w AND 0xFF800000 = 0x04800000),
       fill_word_found = (w = 0),
       eoe_found = (w AND 0xC0000000 = 0xC0000000),
       data_length = 0, module_setting = 0, module_id = 0,
       channel_address = 0, mdpp_flags = 0, high_stamp = 0, low_stamp = 0 \<rparr>"
    by (simp add: r1_def zero_initialized_def)
  have s2: "r2 = r1\<lparr>
       data_length := (if w AND 0xC0000000 = 0x40000000 then ucast (w AND 0x000003FF) else 0),
       module_setting :=
         (if w AND 0xC0000000 = 0x40000000 then ucast ((w AND 0x0000FC00) div 0x400) else 0),
       module_id :=
         (if w AND 0xC0000000 = 0x40000000 then ucast ((w AND 0x00FF0000) div 0x10000) else 0)\<rparr>"
    by (simp add: r2_def s1)
  have s3: "r3 = r2\<lparr>
       channel_address :=
         (if w AND 0xF0000000 = 0x10000000 \<or> w AND 0xFF800000 = 0x04000000
          then ucast ((w AND 0x003F0000) div 0x10000) else 0),
       mdpp_flags :=
         (if w AND 0xF0000000 = 0x10000000 \<or> w AND 0xFF800000 = 0x04000000
          then ucast ((w AND 0x0FC00000) div 0x40000) else 0)\<rparr>"
    by (simp add: r3_def s2 s1)
  have s4: "r4 = r3\<lparr>
       high_stamp := (if w AND 0xFF800000 = 0x04800000 then ucast (w AND 0x0000FFFF) else 0)\<rparr>"
    by (simp add: r4_def s3 s2 s1)
  have s5: "r5 = r4\<lparr>
       low_stamp := (if w AND 0xC0000000 = 0xC0000000 then w AND 0x3FFFFFFF else 0)\<rparr>"
    by (simp add: r5_def s4 s3 s2 s1)
  show ?thesis
    by (simp add: chain s5 s4 s3 s2 s1)
qed

lemma decode_flags:
  "header_found (decode_mesytec_vme_word w) = (w AND 0xC0000000 = 0x40000000)"
  "data_found (decode_mesytec_vme_word w) =
     (w AND 0xF0000000 = 0x10000000 \<or> w AND 0xFF800000 = 0x04000000)"
  "extended_ts_found (decode_mesytec_vme_word w) = (w AND 0xFF800000 = 0x04800000)"
  "fill_word_found (decode_mesytec_vme_word w) = (w = 0)"
  "eoe_found (decode_mesytec_vme_word w) = (w AND 0xC0000000 = 0xC0000000)"
  by (simp_all add: decode_record)

lemma decode_fields:
  "data_length (decode_mesytec_vme_word w) =
     (if w AND 0xC0000000 = 0x40000000 then ucast (w AND 0x000003FF) else 0)"
  "module_id (decode_mesytec_vme_word w) =
     (if w AND 0xC0000000 = 0x40000000 then ucast ((w AND 0x00FF0000) div 0x10000) else 0)"
  "module_setting (decode_mesytec_vme_word w) =
     (if w AND 0xC0000000 = 0x40000000 then ucast ((w AND 0x0000FC00) div 0x400) else 0)"
  "channel_address (decode_mesytec_vme_word w) =
     (if w AND 0xF0000000 = 0x10000000 \<or> w AND 0xFF800000 = 0x04000000
      then ucast ((w AND 0x003F0000) div 0x10000) else 0)"
  "mdpp_flags (decode_mesytec_vme_word w) =
     (if w AND 0xF0000000 = 0x10000000 \<or> w AND 0xFF800000 = 0x04000000
      then ucast ((w AND 0x0FC00000) div 0x40000) else 0)"
  "high_stamp (decode_mesytec_vme_word w) =
     (if w AND 0xFF800000 = 0x04800000 then ucast (w AND 0x0000FFFF) else 0)"
  "low_stamp (decode_mesytec_vme_word w) =
     (if w AND 0xC0000000 = 0xC0000000 then w AND 0x3FFFFFFF else 0)"
  by (simp_all add: decode_record)

lemma decoded_kind_chain:
  "decoded_kind w =
     (if w AND 0xC0000000 = 0x40000000 then ModuleHeader
      else if w AND 0xF0000000 = 0x10000000 \<or> w AND 0xFF800000 = 0x04000000 then DataWord
      else if w AND 0xFF800000 = 0x04800000 then ExtendedTimestamp
      else if w AND 0xC0000000 = 0xC0000000 then EndOfEvent
      else if w = 0 then FillWord
      else Unrecognized)"
  by (simp add: decoded_kind_def print_decoded_vme_word_kind_def decode_flags)

subsection \<open>The bit patterns exclude each other\<close>

text \<open>
  Restricting a masked comparison to fewer bits: the header and end-of-event patterns
  fix bit 30 to one, all the others fix it to zero; the MDPP data pattern fixes bit 28
  to one, the extended timestamp fixes it to zero; the two patterns on the mask
  \<open>0xFF800000\<close> differ in bit 23.
\<close>

lemma and_restrict: "w AND m = c \<Longrightarrow> w AND (m AND b) = c AND b" for w :: u32
  by (simp add: and.assoc [symmetric])

lemma header_top: "w AND 0xC0000000 = 0x40000000 \<Longrightarrow> w AND 0x40000000 = 0x40000000"
  for w :: u32
  using and_restrict [of w "0xC0000000" "0x40000000" "0x40000000"] by simp

lemma eoe_top: "w AND 0xC0000000 = 0xC0000000 \<Longrightarrow> w AND 0x40000000 = 0x40000000"
  for w :: u32
  using and_restrict [of w "0xC0000000" "0xC0000000" "0x40000000"] by simp

lemma mdpp_top: "w AND 0xF0000000 = 0x10000000 \<Longrightarrow> w AND 0x40000000 = 0"
  for w :: u32
  using and_restrict [of w "0xF0000000" "0x10000000" "0x40000000"] by simp

lemma mdpp_bit28: "w AND 0xF0000000 = 0x10000000 \<Longrightarrow> w AND 0x10000000 = 0x10000000"
  for w :: u32
  using and_restrict [of w "0xF0000000" "0x10000000" "0x10000000"] by simp

lemma mxdc_top: "w AND 0xFF800000 = c \<Longrightarrow> w AND 0x40000000 = c AND 0x40000000"
  for w :: u32
  using and_restrict [of w "0xFF800000" c "0x40000000"] by simp

lemma mxdc_bit28: "w AND 0xFF800000 = c \<Longrightarrow> w AND 0x10000000 = c AND 0x10000000"
  for w :: u32
  using and_restrict [of w "0xFF800000" c "0x10000000"] by simp

lemma header_excl:
  fixes w :: u32
  assumes "w AND 0xC0000000 = 0x40000000"
  shows "w AND 0xF0000000 \<noteq> 0x10000000" "w AND 0xFF800000 \<noteq> 0x04000000"
    "w AND 0xFF800000 \<noteq> 0x04800000" "w \<noteq> 0" "w AND 0xC0000000 \<noteq> 0xC0000000"
proof -
  have t: "w AND 0x40000000 = 0x40000000" using assms by (rule header_top)
  show "w AND 0xF0000000 \<noteq> 0x10000000" using t mdpp_top [of w] by auto
  show "w AND 0xFF800000 \<noteq> 0x04000000" using t mxdc_top [of w "0x04000000"] by auto
  show "w AND 0xFF800000 \<noteq> 0x04800000" using t mxdc_top [of w "0x04800000"] by auto
  show "w \<noteq> 0" using assms by auto
  show "w AND 0xC0000000 \<noteq> 0xC0000000" using assms by simp
qed

lemma eoe_excl:
  fixes w :: u32
  assumes "w AND 0xC0000000 = 0xC0000000"
  shows "w AND 0xF0000000 \<noteq> 0x10000000" "w AND 0xFF800000 \<noteq> 0x04000000"
    "w AND 0xFF800000 \<noteq> 0x04800000" "w \<noteq> 0" "w AND 0xC0000000 \<noteq> 0x40000000"
proof -
  have t: "w AND 0x40000000 = 0x40000000" using assms by (rule eoe_top)
  show "w AND 0xF0000000 \<noteq> 0x10000000" using t mdpp_top [of w] by auto
  show "w AND 0xFF800000 \<noteq> 0x04000000" using t mxdc_top [of w "0x04000000"] by auto
  show "w AND 0xFF800000 \<noteq> 0x04800000" using t mxdc_top [of w "0x04800000"] by auto
  show "w \<noteq> 0" using assms by auto
  show "w AND 0xC0000000 \<noteq> 0x40000000" using assms by simp
qed

lemma ext_ts_excl:
  fixes w :: u32
  assumes "w AND 0xFF800000 = 0x04800000"
  shows "w AND 0xF0000000 \<noteq> 0x10000000" "w AND 0xFF800000 \<noteq> 0x04000000" "w \<noteq> 0"
proof -
  have "w AND 0x10000000 = 0" using mxdc_bit28 [OF assms] by simp
  then show "w AND 0xF0000000 \<noteq> 0x10000000" using mdpp_bit28 [of w] by auto
  show "w AND 0xFF800000 \<noteq> 0x04000000" using assms by simp
  show "w \<noteq> 0" using assms by auto
qed

lemma fill_excl:
  "(0::u32) AND 0xF0000000 \<noteq> 0x10000000" "(0::u32) AND 0xFF800000 \<noteq> 0x04000000"
  by simp_all

lemma kind_iff:
  "decoded_kind w = ModuleHeader \<longleftrightarrow> w AND 0xC0000000 = 0x40000000"
  "decoded_kind w = DataWord \<longleftrightarrow>
     w AND 0xF0000000 = 0x10000000 \<or> w AND 0xFF800000 = 0x04000000"
  "decoded_kind w = ExtendedTimestamp \<longleftrightarrow> w AND 0xFF800000 = 0x04800000"
  "decoded_kind w = EndOfEvent \<longleftrightarrow> w AND 0xC0000000 = 0xC0000000"
  "decoded_kind w = FillWord \<longleftrightarrow> w = 0"
  using header_excl [of w] eoe_excl [of w] ext_ts_excl [of w] fill_excl
  by (auto simp add: decoded_kind_chain)

lemma count_flags:
  "length (filter id [a, b, c, d, e]) \<le> 1 \<longleftrightarrow>
     \<not> (a \<and> b) \<and> \<not> (a \<and> c) \<and> \<not> (a \<and> d) \<and> \<not> (a \<and> e) \<and> \<not> (b \<and> c)
     \<and> \<not> (b \<and> d) \<and> \<not> (b \<and> e) \<and> \<not> (c \<and> d) \<and> \<not> (c \<and> e) \<and> \<not> (d \<and> e)"
  by (cases a; cases b; cases c; cases d; cases e; simp)

lemma flags_pairwise:
  "\<not> (header_found (decode_mesytec_vme_word w) \<and> data_found (decode_mesytec_vme_word w))"
  "\<not> (header_found (decode_mesytec_vme_word w) \<and> extended_ts_found (decode_mesytec_vme_word w))"
  "\<not> (header_found (decode_mesytec_vme_word w) \<and> fill_word_found (decode_mesytec_vme_word w))"
  "\<not> (header_found (decode_mesytec_vme_word w) \<and> eoe_found (decode_mesytec_vme_word w))"
  "\<not> (data_found (decode_mesytec_vme_word w) \<and> extended_ts_found (decode_mesytec_vme_word w))"
  "\<not> (data_found (decode_mesytec_vme_word w) \<and> fill_word_found (decode_mesytec_vme_word w))"
  "\<not> (data_found (decode_mesytec_vme_word w) \<and> eoe_found (decode_mesytec_vme_word w))"
  "\<not> (extended_ts_found (decode_mesytec_vme_word w) \<and> fill_word_found (decode_mesytec_vme_word w))"
  "\<not> (extended_ts_found (decode_mesytec_vme_word w) \<and> eoe_found (decode_mesytec_vme_word w))"
  "\<not> (fill_word_found (decode_mesytec_vme_word w) \<and> eoe_found (decode_mesytec_vme_word w))"
proof -
  show "\<not> (header_found (decode_mesytec_vme_word w) \<and> data_found (decode_mesytec_vme_word w))"
    using header_excl(1,2) [of w] by (auto simp add: decode_flags)
  show "\<not> (header_found (decode_mesytec_vme_word w) \<and> extended_ts_found (decode_mesytec_vme_word w))"
    using header_excl(3) [of w] by (auto simp add: decode_flags)
  show "\<not> (header_found (decode_mesytec_vme_word w) \<and> fill_word_found (decode_mesytec_vme_word w))"
    using header_excl(4) [of w] by (auto simp add: decode_flags)
  show "\<not> (header_found (decode_mesytec_vme_word w) \<and> eoe_found (decode_mesytec_vme_word w))"
    using header_excl(5) [of w] by (auto simp add: decode_flags)
  show "\<not> (data_found (decode_mesytec_vme_word w) \<and> extended_ts_found (decode_mesytec_vme_word w))"
    using ext_ts_excl(1,2) [of w] by (auto simp add: decode_flags)
  show "\<not> (data_found (decode_mesytec_vme_word w) \<and> fill_word_found (decode_mesytec_vme_word w))"
    using fill_excl by (auto simp add: decode_flags)
  show "\<not> (data_found (decode_mesytec_vme_word w) \<and> eoe_found (decode_mesytec_vme_word w))"
    using eoe_excl(1,2) [of w] by (auto simp add: decode_flags)
  show "\<not> (extended_ts_found (decode_mesytec_vme_word w) \<and> fill_word_found (decode_mesytec_vme_word w))"
    using ext_ts_excl(3) [of w] by (auto simp add: decode_flags)
  show "\<not> (extended_ts_found (decode_mesytec_vme_word w) \<and> eoe_found (decode_mesytec_vme_word w))"
    using eoe_excl(3) [of w] by (auto simp add: decode_flags)
  show "\<not> (fill_word_found (decode_mesytec_vme_word w) \<and> eoe_found (decode_mesytec_vme_word w))"
    using eoe_excl(4) [of w] by (auto simp add: decode_flags)
qed

lemma flag_count_le_1:
  "length (filter id (found_flags (decode_mesytec_vme_word w))) \<le> 1"
  unfolding found_flags_def count_flags
  by (intro conjI) (rule flags_pairwise)+


subsection \<open>Division by a power of two, and narrowing\<close>

lemma ucast_low8: "(ucast (ucast x :: u8) :: u32) = take_bit 8 x" for x :: u32
  by (rule bit_word_eqI) (auto simp add: bit_ucast_iff bit_take_bit_iff)

lemma ucast_low16: "(ucast (ucast x :: u16) :: u32) = take_bit 16 x" for x :: u32
  by (rule bit_word_eqI) (auto simp add: bit_ucast_iff bit_take_bit_iff)

lemma div_0x10000: "x div 0x10000 = drop_bit 16 x" for x :: u32
  by (simp add: drop_bit_eq_div)

lemma div_0x400: "x div 0x400 = drop_bit 10 x" for x :: u32
  by (simp add: drop_bit_eq_div)

lemma div_0x40000: "x div 0x40000 = drop_bit 18 x" for x :: u32
  by (simp add: drop_bit_eq_div)

lemma and_le_mask: "unat (x AND m) \<le> unat m" for x m :: u32
  by (simp add: word_and_le1 [THEN word_le_nat_alt [THEN iffD1]])

lemma unat_ucast_u8: "unat (ucast (x :: u8) :: u32) = unat x"
proof -
  have "unat x < 2 ^ 8" using unsigned_less [of x] by simp
  then have "unat x < 2 ^ 32" by simp
  then show ?thesis by (simp add: unsigned_ucast_eq take_bit_nat_eq_self_iff)
qed
     
lemma unat_ucast_u16: "unat (ucast (x :: u16) :: u32) = unat x"
proof -
  have "unat x < 2 ^ 16" using unsigned_less [of x] by simp
  then have "unat x < 2 ^ 32" by simp
  then show ?thesis by (simp add: unsigned_ucast_eq take_bit_nat_eq_self_iff)
qed

lemma header_fields_exact:
  fixes w :: u32
  shows "(ucast (ucast (w AND 0x000003FF) :: u16) :: u32) = w AND 0x000003FF"
    and "(ucast (ucast ((w AND 0x00FF0000) div 0x10000) :: u8) :: u32)
           = drop_bit 16 (w AND 0x00FF0000)"
    and "(ucast (ucast ((w AND 0x0000FC00) div 0x400) :: u8) :: u32)
           = drop_bit 10 (w AND 0x0000FC00)"
  by (simp_all add: div_0x10000 div_0x400 ucast_low8 ucast_low16
        take_bit_eq_mask mask_numeral and.assoc)

lemma other_fields_exact:
  fixes w :: u32
  shows "(ucast (ucast ((w AND 0x003F0000) div 0x10000) :: u8) :: u32)
           = drop_bit 16 (w AND 0x003F0000)"
    and "(ucast (ucast (w AND 0x0000FFFF) :: u16) :: u32) = w AND 0x0000FFFF"
  by (simp_all add: div_0x10000 ucast_low16 ucast_low8
        take_bit_eq_mask mask_numeral and.assoc)

lemma field_bounds:
  fixes w :: u32
  shows "unat (w AND 0x000003FF) < 2 ^ 10"
    and "unat (drop_bit 16 (w AND 0x00FF0000)) < 2 ^ 8"
    and "unat (drop_bit 10 (w AND 0x0000FC00)) < 2 ^ 6"
    and "unat (drop_bit 16 (w AND 0x003F0000)) < 2 ^ 6"
    and "unat (w AND 0x0000FFFF) < 2 ^ 16"
    and "unat (w AND 0x3FFFFFFF) < 2 ^ 30"
  using and_le_mask [of w "0x000003FF"] and_le_mask [of "drop_bit 16 w" "0xFF"]
    and_le_mask [of "drop_bit 10 w" "0x3F"] and_le_mask [of "drop_bit 16 w" "0x3F"]
    and_le_mask [of w "0x0000FFFF"] and_le_mask [of w "0x3FFFFFFF"]
  by simp_all

text \<open>
  What a data word's \<open>mdpp_flags\<close> member holds: the quotient by \<open>0x40000\<close> cut to 8
  bits, that is bits 22 to 25 of the word in bit positions 4 to 7.
\<close>

lemma mdpp_flags_stored:
  "decoded_kind w = DataWord \<Longrightarrow>
     (ucast (mdpp_flags (decode_mesytec_vme_word w)) :: u32) = drop_bit 18 (w AND 0x03C00000)"
  by (simp add: kind_iff decode_fields div_0x40000 ucast_low8 take_bit_eq_mask mask_numeral
        and.assoc)

subsection \<open>Chains of guarded branches\<close>

lemma first_match_branches:
  "first_match (pattern_branches dw) = print_decoded_vme_word_kind dw"
  by (simp add: pattern_branches_def print_decoded_vme_word_kind_def)

lemma first_match_mem:
  "(True, k) \<in> set bs \<Longrightarrow> (True, first_match bs) \<in> set bs"
proof (induction bs)
  case Nil
  then show ?case by simp
next
  case (Cons a bs)
  obtain b j where a: "a = (b, j)" by (cases a)
  show ?case
  proof (cases b)
    case True
    then show ?thesis by (simp add: a)
  next
    case False
    with Cons.prems a have "(True, k) \<in> set bs" by simp
    then have "(True, first_match bs) \<in> set bs" by (rule Cons.IH)
    then show ?thesis by (simp add: a False)
  qed
qed

lemma first_match_none:
  "\<forall>k. (True, k) \<notin> set bs \<Longrightarrow> first_match bs = Unrecognized"
proof (induction bs)
  case Nil
  then show ?case by simp
next
  case (Cons a bs)
  obtain b j where a: "a = (b, j)" by (cases a)
  from Cons.prems have "(True, j) \<notin> set (a # bs)" by (rule spec)
  with a have "\<not> b" by simp
  moreover have "\<forall>k. (True, k) \<notin> set bs"
  proof
    fix k
    from Cons.prems have "(True, k) \<notin> set (a # bs)" by (rule spec)
    then show "(True, k) \<notin> set bs" by simp
  qed
  then have "first_match bs = Unrecognized" by (rule Cons.IH)
  ultimately show ?case using a by simp
qed

lemma first_match_any_order:
  assumes one: "length (filter id (found_flags dw)) \<le> 1"
    and perm: "mset bs = mset (pattern_branches dw)"
  shows "first_match bs = print_decoded_vme_word_kind dw"
proof -
  have S: "set bs = set (pattern_branches dw)"
    using perm by (rule mset_eq_setD)
  show ?thesis
  proof (cases "\<exists>k. (True, k) \<in> set bs")
    case False
    then have none: "\<forall>k. (True, k) \<notin> set bs" by simp
    then have "first_match bs = Unrecognized" by (rule first_match_none)
    moreover from none have "print_decoded_vme_word_kind dw = Unrecognized"
      unfolding S by (auto simp add: pattern_branches_def print_decoded_vme_word_kind_def)
    ultimately show ?thesis by simp
  next
    case True
    then obtain k where "(True, k) \<in> set bs" ..
    then have "(True, first_match bs) \<in> set bs" by (rule first_match_mem)
    then show ?thesis
      using one unfolding S found_flags_def count_flags
      by (auto simp add: pattern_branches_def print_decoded_vme_word_kind_def)
  qed
qed

section \<open>Selection of the kind\<close>

text \<open>
  C1. For every 32-bit word the kind is selected by first match over the five
  classification predicates in the order header, data, extended timestamp, end of
  event, fill, and \<open>Unrecognized\<close> otherwise. The predicates are the five flags that
  decode stores: \<open>header_found\<close> is \<open>(word & 0xC0000000) == 0x40000000\<close>,
  \<open>data_found\<close> is \<open>(word & 0xF0000000) == 0x10000000\<close> or
  \<open>(word & 0xFF800000) == 0x04000000\<close>, \<open>extended_ts_found\<close> is
  \<open>(word & 0xFF800000) == 0x04800000\<close>, \<open>fill_word_found\<close> is \<open>word == 0\<close> and
  \<open>eoe_found\<close> is \<open>(word & 0xC0000000) == 0xC0000000\<close>. In particular a word that
  matches the header pattern yields \<open>ModuleHeader\<close> whatever else it matches, and so on
  down the chain: each kind is selected as soon as its flag is set and no flag
  earlier in the chain is.
\<close>

theorem kind_selected_by_first_match:
  "header_found (decode_mesytec_vme_word w) = (w AND 0xC0000000 = 0x40000000)
   \<and> data_found (decode_mesytec_vme_word w)
       = (w AND 0xF0000000 = 0x10000000 \<or> w AND 0xFF800000 = 0x04000000)
   \<and> extended_ts_found (decode_mesytec_vme_word w) = (w AND 0xFF800000 = 0x04800000)
   \<and> fill_word_found (decode_mesytec_vme_word w) = (w = 0x00000000)
   \<and> eoe_found (decode_mesytec_vme_word w) = (w AND 0xC0000000 = 0xC0000000)
   \<and> decoded_kind w =
       (if w AND 0xC0000000 = 0x40000000 then ModuleHeader
        else if w AND 0xF0000000 = 0x10000000 \<or> w AND 0xFF800000 = 0x04000000 then DataWord
        else if w AND 0xFF800000 = 0x04800000 then ExtendedTimestamp
        else if w AND 0xC0000000 = 0xC0000000 then EndOfEvent
        else if w = 0x00000000 then FillWord
        else Unrecognized)
   \<and> (header_found (decode_mesytec_vme_word w) \<longrightarrow> decoded_kind w = ModuleHeader)
   \<and> (\<not> header_found (decode_mesytec_vme_word w)
        \<and> data_found (decode_mesytec_vme_word w) \<longrightarrow> decoded_kind w = DataWord)
   \<and> (\<not> header_found (decode_mesytec_vme_word w)
        \<and> \<not> data_found (decode_mesytec_vme_word w)
        \<and> extended_ts_found (decode_mesytec_vme_word w)
        \<longrightarrow> decoded_kind w = ExtendedTimestamp)
   \<and> (\<not> header_found (decode_mesytec_vme_word w)
        \<and> \<not> data_found (decode_mesytec_vme_word w)
        \<and> \<not> extended_ts_found (decode_mesytec_vme_word w)
        \<and> eoe_found (decode_mesytec_vme_word w)
        \<longrightarrow> decoded_kind w = EndOfEvent)
   \<and> (\<not> header_found (decode_mesytec_vme_word w)
        \<and> \<not> data_found (decode_mesytec_vme_word w)
        \<and> \<not> extended_ts_found (decode_mesytec_vme_word w)
        \<and> \<not> eoe_found (decode_mesytec_vme_word w)
        \<and> fill_word_found (decode_mesytec_vme_word w)
        \<longrightarrow> decoded_kind w = FillWord)
   \<and> (\<not> header_found (decode_mesytec_vme_word w)
        \<and> \<not> data_found (decode_mesytec_vme_word w)
        \<and> \<not> extended_ts_found (decode_mesytec_vme_word w)
        \<and> \<not> eoe_found (decode_mesytec_vme_word w)
        \<and> \<not> fill_word_found (decode_mesytec_vme_word w)
        \<longrightarrow> decoded_kind w = Unrecognized)"
  by (simp add: decode_flags decoded_kind_chain)

text \<open>One word for each link of the chain.\<close>

theorem kind_selected_by_first_match_witness:
  "header_found (decode_mesytec_vme_word 0x40010c07)
   \<and> decoded_kind 0x40010c07 = ModuleHeader
   \<and> data_found (decode_mesytec_vme_word 0x10100868)
   \<and> decoded_kind 0x10100868 = DataWord
   \<and> extended_ts_found (decode_mesytec_vme_word 0x04800057)
   \<and> decoded_kind 0x04800057 = ExtendedTimestamp
   \<and> eoe_found (decode_mesytec_vme_word 0xc18d01bd)
   \<and> decoded_kind 0xc18d01bd = EndOfEvent
   \<and> fill_word_found (decode_mesytec_vme_word 0x00000000)
   \<and> decoded_kind 0x00000000 = FillWord
   \<and> decoded_kind 0x20000000 = Unrecognized"
  using kind_selected_by_first_match [of "0x40010c07"]
    kind_selected_by_first_match [of "0x10100868"]
    kind_selected_by_first_match [of "0x04800057"]
    kind_selected_by_first_match [of "0xc18d01bd"]
    kind_selected_by_first_match [of "0x00000000"]
    kind_selected_by_first_match [of "0x20000000"]
  by simp

section \<open>Field extraction\<close>

text \<open>
  C2. For a word whose selected kind is \<open>DataWord\<close>, the \<open>mdpp_flags\<close> member would have
  to equal \<open>(word & 0x0FC00000) >> 18\<close>. The code divides the masked value by
  \<open>0x0040000\<close>, which is \<open>2 ^ 18\<close>, although the lowest bit of the mask is bit 22, and
  stores the quotient in an 8-bit member. The quotient can be as large as \<open>0x3F0\<close>, so
  its bits 8 and 9 (bits 26 and 27 of the word) are lost on assignment. The data
  word \<open>0x14000000\<close> shows it: the shifted value is \<open>0x100\<close>, the stored member is 0.
\<close>

theorem mdpp_flags_loses_high_bits:
  "decoded_kind 0x14000000 = DataWord
   \<and> drop_bit 18 (0x14000000 AND 0x0FC00000 :: u32) = 0x100
   \<and> mdpp_flags (decode_mesytec_vme_word 0x14000000) = 0
   \<and> (ucast (mdpp_flags (decode_mesytec_vme_word 0x14000000)) :: u32)
       \<noteq> drop_bit 18 (0x14000000 AND 0x0FC00000)"
  by (simp add: decoded_kind_chain decode_fields)

text \<open>
  C3. For a word whose selected kind is \<open>DataWord\<close>, both extracted members would have
  to be below 64. This holds for \<open>channel_address\<close> (see C4) and fails for
  \<open>mdpp_flags\<close>, for the reason given under C2: with a divisor of \<open>2 ^ 18\<close> under a mask
  that starts at bit 22, the four low bits of the member are always zero and the
  value is a multiple of 16 of up to \<open>0xF0\<close>. The data word \<open>0x11000000\<close> gives 64.
\<close>

theorem mdpp_flags_exceeds_six_bits:
  "decoded_kind 0x11000000 = DataWord
   \<and> mdpp_flags (decode_mesytec_vme_word 0x11000000) = 0x40
   \<and> \<not> unat (mdpp_flags (decode_mesytec_vme_word 0x11000000)) < 64"
  by (simp add: decoded_kind_chain decode_fields)

text \<open>
  C4. The members of the selected kind other than \<open>mdpp_flags\<close> are extracted exactly
  by mask and shift, and each fits its declared width, so that nothing is lost when
  the 32-bit value is stored in the narrower member (converting the member back to
  32 bits gives the masked and shifted value again):
  for \<open>ModuleHeader\<close>, \<open>data_length = word & 0x000003FF\<close> (10 bits),
  \<open>module_id = (word & 0x00FF0000) >> 16\<close> (8 bits) and
  \<open>module_setting = (word & 0x0000FC00) >> 10\<close> (6 bits);
  for \<open>DataWord\<close>, \<open>channel_address = (word & 0x003F0000) >> 16\<close> (6 bits);
  for \<open>ExtendedTimestamp\<close>, \<open>high_stamp = word & 0x0000FFFF\<close> (16 bits);
  for \<open>EndOfEvent\<close>, \<open>low_stamp = word & 0x3FFFFFFF\<close> (30 bits).
\<close>

theorem selected_fields_exact:
  "(decoded_kind w = ModuleHeader \<longrightarrow>
      (ucast (data_length (decode_mesytec_vme_word w)) :: u32) = w AND 0x000003FF
      \<and> unat (data_length (decode_mesytec_vme_word w)) < 2 ^ 10
      \<and> (ucast (module_id (decode_mesytec_vme_word w)) :: u32) = drop_bit 16 (w AND 0x00FF0000)
      \<and> unat (module_id (decode_mesytec_vme_word w)) < 2 ^ 8
      \<and> (ucast (module_setting (decode_mesytec_vme_word w)) :: u32)
            = drop_bit 10 (w AND 0x0000FC00)
      \<and> unat (module_setting (decode_mesytec_vme_word w)) < 2 ^ 6)
   \<and> (decoded_kind w = DataWord \<longrightarrow>
      (ucast (channel_address (decode_mesytec_vme_word w)) :: u32)
            = drop_bit 16 (w AND 0x003F0000)
      \<and> unat (channel_address (decode_mesytec_vme_word w)) < 2 ^ 6)
   \<and> (decoded_kind w = ExtendedTimestamp \<longrightarrow>
      (ucast (high_stamp (decode_mesytec_vme_word w)) :: u32) = w AND 0x0000FFFF
      \<and> unat (high_stamp (decode_mesytec_vme_word w)) < 2 ^ 16)
   \<and> (decoded_kind w = EndOfEvent \<longrightarrow>
      low_stamp (decode_mesytec_vme_word w) = w AND 0x3FFFFFFF
      \<and> unat (low_stamp (decode_mesytec_vme_word w)) < 2 ^ 30)"
proof (intro conjI impI)
  assume "decoded_kind w = ModuleHeader"
  then have h: "w AND 0xC0000000 = 0x40000000" by (simp add: kind_iff)
  show "(ucast (data_length (decode_mesytec_vme_word w)) :: u32) = w AND 0x000003FF"
    using h by (simp add: decode_fields header_fields_exact)
  then show "unat (data_length (decode_mesytec_vme_word w)) < 2 ^ 10"
    using field_bounds(1) [of w] unat_ucast_u16 [of "data_length (decode_mesytec_vme_word w)"]
    by simp
  show "(ucast (module_id (decode_mesytec_vme_word w)) :: u32) = drop_bit 16 (w AND 0x00FF0000)"
    using h by (simp add: decode_fields header_fields_exact)
  then show "unat (module_id (decode_mesytec_vme_word w)) < 2 ^ 8"
    using field_bounds(2) [of w] unat_ucast_u8 [of "module_id (decode_mesytec_vme_word w)"]
    by simp
  show "(ucast (module_setting (decode_mesytec_vme_word w)) :: u32)
          = drop_bit 10 (w AND 0x0000FC00)"
    using h by (simp add: decode_fields header_fields_exact)
  then show "unat (module_setting (decode_mesytec_vme_word w)) < 2 ^ 6"
    using field_bounds(3) [of w] unat_ucast_u8 [of "module_setting (decode_mesytec_vme_word w)"]
    by simp
next
  assume "decoded_kind w = DataWord"
  then have d: "w AND 0xF0000000 = 0x10000000 \<or> w AND 0xFF800000 = 0x04000000"
    by (simp add: kind_iff)
  show "(ucast (channel_address (decode_mesytec_vme_word w)) :: u32)
          = drop_bit 16 (w AND 0x003F0000)"
    using d by (simp add: decode_fields other_fields_exact)
  then show "unat (channel_address (decode_mesytec_vme_word w)) < 2 ^ 6"
    using field_bounds(4) [of w]
      unat_ucast_u8 [of "channel_address (decode_mesytec_vme_word w)"]
    by simp
next
  assume "decoded_kind w = ExtendedTimestamp"
  then have x: "w AND 0xFF800000 = 0x04800000" by (simp add: kind_iff)
  show "(ucast (high_stamp (decode_mesytec_vme_word w)) :: u32) = w AND 0x0000FFFF"
    using x by (simp add: decode_fields other_fields_exact)
  then show "unat (high_stamp (decode_mesytec_vme_word w)) < 2 ^ 16"
    using field_bounds(5) [of w] unat_ucast_u16 [of "high_stamp (decode_mesytec_vme_word w)"]
    by simp
next
  assume "decoded_kind w = EndOfEvent"
  then have e: "w AND 0xC0000000 = 0xC0000000" by (simp add: kind_iff)
  show "low_stamp (decode_mesytec_vme_word w) = w AND 0x3FFFFFFF"
    using e by (simp add: decode_fields)
  then show "unat (low_stamp (decode_mesytec_vme_word w)) < 2 ^ 30"
    using field_bounds(6) [of w] by simp
qed

text \<open>One word of each of the four kinds that carry fields.\<close>

theorem selected_fields_exact_witness:
  "decoded_kind 0x40010c07 = ModuleHeader
   \<and> (ucast (data_length (decode_mesytec_vme_word 0x40010c07)) :: u32) = 7
   \<and> (ucast (module_id (decode_mesytec_vme_word 0x40010c07)) :: u32) = 1
   \<and> (ucast (module_setting (decode_mesytec_vme_word 0x40010c07)) :: u32) = 3
   \<and> decoded_kind 0x10100868 = DataWord
   \<and> (ucast (channel_address (decode_mesytec_vme_word 0x10100868)) :: u32) = 16
   \<and> decoded_kind 0x04800057 = ExtendedTimestamp
   \<and> (ucast (high_stamp (decode_mesytec_vme_word 0x04800057)) :: u32) = 0x57
   \<and> decoded_kind 0xc18d01bd = EndOfEvent
   \<and> low_stamp (decode_mesytec_vme_word 0xc18d01bd) = 26018237"
  using selected_fields_exact [of "0x40010c07"] selected_fields_exact [of "0x10100868"]
    selected_fields_exact [of "0x04800057"] selected_fields_exact [of "0xc18d01bd"]
  by (simp add: decoded_kind_chain)

section \<open>The documented scenarios\<close>

text \<open>
  C5. Each of the eight sample inputs decodes to the stated kind and field values:
  \<open>0x40010c07\<close> to \<open>ModuleHeader\<close> with \<open>module_id = 0x01\<close>, \<open>module_setting = 0x3\<close>,
  \<open>data_length = 7\<close>; \<open>0x10100868\<close> to \<open>DataWord\<close> with \<open>channel_address = 16\<close>,
  \<open>mdpp_flags = 0\<close>; \<open>0x1000036e\<close> to \<open>DataWord\<close> with \<open>channel_address = 0\<close>,
  \<open>mdpp_flags = 0\<close>; \<open>0x103002aa\<close> to \<open>DataWord\<close> with \<open>channel_address = 48\<close>,
  \<open>mdpp_flags = 0\<close>; \<open>0xc18d01bd\<close> to \<open>EndOfEvent\<close> with \<open>low_stamp = 26018237\<close>;
  \<open>0x00000000\<close> to \<open>FillWord\<close>; \<open>0x04800057\<close> to \<open>ExtendedTimestamp\<close> with
  \<open>high_stamp = 0x0057\<close>; \<open>0x20000000\<close> to \<open>Unrecognized\<close>.
\<close>

theorem documented_scenarios:
  "decoded_kind 0x40010c07 = ModuleHeader
   \<and> module_id (decode_mesytec_vme_word 0x40010c07) = 0x01
   \<and> module_setting (decode_mesytec_vme_word 0x40010c07) = 0x3
   \<and> data_length (decode_mesytec_vme_word 0x40010c07) = 7
   \<and> decoded_kind 0x10100868 = DataWord
   \<and> channel_address (decode_mesytec_vme_word 0x10100868) = 16
   \<and> mdpp_flags (decode_mesytec_vme_word 0x10100868) = 0
   \<and> decoded_kind 0x1000036e = DataWord
   \<and> channel_address (decode_mesytec_vme_word 0x1000036e) = 0
   \<and> mdpp_flags (decode_mesytec_vme_word 0x1000036e) = 0
   \<and> decoded_kind 0x103002aa = DataWord
   \<and> channel_address (decode_mesytec_vme_word 0x103002aa) = 48
   \<and> mdpp_flags (decode_mesytec_vme_word 0x103002aa) = 0
   \<and> decoded_kind 0xc18d01bd = EndOfEvent
   \<and> low_stamp (decode_mesytec_vme_word 0xc18d01bd) = 26018237
   \<and> decoded_kind 0x00000000 = FillWord
   \<and> decoded_kind 0x04800057 = ExtendedTimestamp
   \<and> high_stamp (decode_mesytec_vme_word 0x04800057) = 0x0057
   \<and> decoded_kind 0x20000000 = Unrecognized"
  by (simp add: decoded_kind_chain decode_fields)

section \<open>Overlap of the patterns\<close>

text \<open>
  C6, as stated: some 32-bit word satisfies more than one of the five predicates. No
  such word exists: the number of flags set in a decoded record never exceeds one.
\<close>

theorem no_word_matches_two_patterns:
  "\<not> (\<exists>w. 1 < length (filter id (found_flags (decode_mesytec_vme_word w))))"
  using flag_count_le_1 by (simp add: not_less)

text \<open>
  C6, amended: the classification predicates do not overlap; for every 32-bit word at
  most one of the five flags \<open>header_found\<close>, \<open>data_found\<close>, \<open>extended_ts_found\<close>,
  \<open>fill_word_found\<close>, \<open>eoe_found\<close> is set.
\<close>

theorem at_most_one_pattern_matches:
  "length (filter id (found_flags (decode_mesytec_vme_word w))) \<le> 1"
  by (rule flag_count_le_1)

text \<open>
  C7. The five predicates are pairwise mutually exclusive. Hence every decoded record
  has at most one flag set, and the order in which the five branches are tested does
  not matter: a chain that tests the same five guarded branches in any other order
  selects the same kind as the printer's chain.
\<close>

theorem patterns_mutually_exclusive:
  "\<not> (header_found (decode_mesytec_vme_word w) \<and> data_found (decode_mesytec_vme_word w))
   \<and> \<not> (header_found (decode_mesytec_vme_word w) \<and> extended_ts_found (decode_mesytec_vme_word w))
   \<and> \<not> (header_found (decode_mesytec_vme_word w) \<and> fill_word_found (decode_mesytec_vme_word w))
   \<and> \<not> (header_found (decode_mesytec_vme_word w) \<and> eoe_found (decode_mesytec_vme_word w))
   \<and> \<not> (data_found (decode_mesytec_vme_word w) \<and> extended_ts_found (decode_mesytec_vme_word w))
   \<and> \<not> (data_found (decode_mesytec_vme_word w) \<and> fill_word_found (decode_mesytec_vme_word w))
   \<and> \<not> (data_found (decode_mesytec_vme_word w) \<and> eoe_found (decode_mesytec_vme_word w))
   \<and> \<not> (extended_ts_found (decode_mesytec_vme_word w) \<and> fill_word_found (decode_mesytec_vme_word w))
   \<and> \<not> (extended_ts_found (decode_mesytec_vme_word w) \<and> eoe_found (decode_mesytec_vme_word w))
   \<and> \<not> (fill_word_found (decode_mesytec_vme_word w) \<and> eoe_found (decode_mesytec_vme_word w))
   \<and> length (filter id (found_flags (decode_mesytec_vme_word w))) \<le> 1
   \<and> (\<forall>bs. mset bs = mset (pattern_branches (decode_mesytec_vme_word w))
          \<longrightarrow> first_match bs = decoded_kind w)"
proof -
  have order: "\<forall>bs. mset bs = mset (pattern_branches (decode_mesytec_vme_word w))
          \<longrightarrow> first_match bs = decoded_kind w"
    using first_match_any_order [OF flag_count_le_1] by (simp add: decoded_kind_def)
  show ?thesis
    by (intro conjI) (rule flags_pairwise flag_count_le_1 order)+
qed

text \<open>The printer's branches tested in reverse order, on an extended timestamp word.\<close>

theorem patterns_mutually_exclusive_witness:
  "first_match (rev (pattern_branches (decode_mesytec_vme_word 0x04800057))) = ExtendedTimestamp
   \<and> decoded_kind 0x04800057 = ExtendedTimestamp"
proof -
  have "mset (rev (pattern_branches (decode_mesytec_vme_word 0x04800057)))
          = mset (pattern_branches (decode_mesytec_vme_word 0x04800057))"
    by simp
  moreover have "\<forall>bs. mset bs = mset (pattern_branches (decode_mesytec_vme_word 0x04800057))
          \<longrightarrow> first_match bs = decoded_kind 0x04800057"
    using patterns_mutually_exclusive [of "0x04800057"] by (elim conjE)
  ultimately have "first_match (rev (pattern_branches (decode_mesytec_vme_word 0x04800057)))
          = decoded_kind 0x04800057"
    by (elim allE impE)
  then show ?thesis by (simp add: decoded_kind_chain)
qed

section \<open>Totality\<close>

text \<open>
  C8. Decoding is total. The source has no loop, no allocation and no operation that
  can fail (the three divisors are non-zero constants), so the embedding is a plain
  function on all of \<open>u32\<close>. What there is to prove is that the result is a well-formed
  variant for every input: exactly one kind \<open>k\<close> is selected, and the flags of the record
  are exactly the indicator of \<open>k\<close> (the flag of \<open>k\<close> is set and no other; none is set
  for \<open>Unrecognized\<close>). A word is \<open>Unrecognized\<close> exactly when it matches none of the
  five patterns; that is a regular outcome, not a failure.
\<close>

theorem decode_total:
  "(\<exists>!k. decoded_kind w = k
        \<and> found_flags (decode_mesytec_vme_word w)
            = [k = ModuleHeader, k = DataWord, k = ExtendedTimestamp,
               k = FillWord, k = EndOfEvent])
   \<and> (decoded_kind w = Unrecognized \<longleftrightarrow>
        w AND 0xC0000000 \<noteq> 0x40000000
        \<and> w AND 0xF0000000 \<noteq> 0x10000000 \<and> w AND 0xFF800000 \<noteq> 0x04000000
        \<and> w AND 0xFF800000 \<noteq> 0x04800000
        \<and> w AND 0xC0000000 \<noteq> 0xC0000000
        \<and> w \<noteq> 0x00000000)"
proof
  have "found_flags (decode_mesytec_vme_word w)
          = [decoded_kind w = ModuleHeader, decoded_kind w = DataWord,
             decoded_kind w = ExtendedTimestamp, decoded_kind w = FillWord,
             decoded_kind w = EndOfEvent]"
    by (simp add: found_flags_def decode_flags kind_iff)
  then show "\<exists>!k. decoded_kind w = k
        \<and> found_flags (decode_mesytec_vme_word w)
            = [k = ModuleHeader, k = DataWord, k = ExtendedTimestamp,
               k = FillWord, k = EndOfEvent]"
    by (intro ex1I [of _ "decoded_kind w"]) simp_all
  show "decoded_kind w = Unrecognized \<longleftrightarrow>
        w AND 0xC0000000 \<noteq> 0x40000000
        \<and> w AND 0xF0000000 \<noteq> 0x10000000 \<and> w AND 0xFF800000 \<noteq> 0x04000000
        \<and> w AND 0xFF800000 \<noteq> 0x04800000
        \<and> w AND 0xC0000000 \<noteq> 0xC0000000
        \<and> w \<noteq> 0x00000000"
    by (simp add: decoded_kind_chain)
qed

section \<open>Frame\<close>

text \<open>
  C9. Decode writes only the fields of the selected kind. For each kind, the guards of
  the assignments to the other kinds' fields are false, so those assignments are not
  executed, and the returned record is the zero-initialised record with the raw word,
  the flag of the selected kind and the fields of the selected kind filled in; every
  other member is as \<open>zero_initialized\<close> has it. (The \<open>if\<close> statements of decode are
  keyed on \<open>header_found\<close>, \<open>data_found\<close>, \<open>extended_ts_found\<close> and \<open>eoe_found\<close>; a
  fill word has no fields.)
\<close>

theorem writes_only_selected_fields:
  "(decoded_kind w = ModuleHeader \<longrightarrow>
      \<not> data_found (decode_mesytec_vme_word w)
      \<and> \<not> extended_ts_found (decode_mesytec_vme_word w)
      \<and> \<not> eoe_found (decode_mesytec_vme_word w)
      \<and> decode_mesytec_vme_word w =
          zero_initialized\<lparr>word := w, header_found := True,
            data_length := ucast (w AND 0x000003FF),
            module_id := ucast ((w AND 0x00FF0000) div 0x10000),
            module_setting := ucast ((w AND 0x0000FC00) div 0x400)\<rparr>)
   \<and> (decoded_kind w = DataWord \<longrightarrow>
      \<not> header_found (decode_mesytec_vme_word w)
      \<and> \<not> extended_ts_found (decode_mesytec_vme_word w)
      \<and> \<not> eoe_found (decode_mesytec_vme_word w)
      \<and> decode_mesytec_vme_word w =
          zero_initialized\<lparr>word := w, data_found := True,
            channel_address := ucast ((w AND 0x003F0000) div 0x0010000),
            mdpp_flags := ucast ((w AND 0x0FC00000) div 0x0040000)\<rparr>)
   \<and> (decoded_kind w = ExtendedTimestamp \<longrightarrow>
      \<not> header_found (decode_mesytec_vme_word w)
      \<and> \<not> data_found (decode_mesytec_vme_word w)
      \<and> \<not> eoe_found (decode_mesytec_vme_word w)
      \<and> decode_mesytec_vme_word w =
          zero_initialized\<lparr>word := w, extended_ts_found := True,
            high_stamp := ucast (w AND 0x0000FFFF)\<rparr>)
   \<and> (decoded_kind w = EndOfEvent \<longrightarrow>
      \<not> header_found (decode_mesytec_vme_word w)
      \<and> \<not> data_found (decode_mesytec_vme_word w)
      \<and> \<not> extended_ts_found (decode_mesytec_vme_word w)
      \<and> decode_mesytec_vme_word w =
          zero_initialized\<lparr>word := w, eoe_found := True,
            low_stamp := w AND 0x3FFFFFFF\<rparr>)
   \<and> (decoded_kind w = FillWord \<longrightarrow>
      \<not> header_found (decode_mesytec_vme_word w)
      \<and> \<not> data_found (decode_mesytec_vme_word w)
      \<and> \<not> extended_ts_found (decode_mesytec_vme_word w)
      \<and> \<not> eoe_found (decode_mesytec_vme_word w)
      \<and> decode_mesytec_vme_word w = zero_initialized\<lparr>word := w, fill_word_found := True\<rparr>)
   \<and> (decoded_kind w = Unrecognized \<longrightarrow>
      \<not> header_found (decode_mesytec_vme_word w)
      \<and> \<not> data_found (decode_mesytec_vme_word w)
      \<and> \<not> extended_ts_found (decode_mesytec_vme_word w)
      \<and> \<not> eoe_found (decode_mesytec_vme_word w)
      \<and> decode_mesytec_vme_word w = zero_initialized\<lparr>word := w\<rparr>)"
proof (intro conjI impI)
  assume "decoded_kind w = ModuleHeader"
  then have h: "w AND 0xC0000000 = 0x40000000" by (simp add: kind_iff)
  note n = header_excl [OF h]
  from n show "\<not> data_found (decode_mesytec_vme_word w)" by (simp add: decode_flags)
  from n show "\<not> extended_ts_found (decode_mesytec_vme_word w)" by (simp add: decode_flags)
  from n show "\<not> eoe_found (decode_mesytec_vme_word w)" by (simp add: decode_flags)
  from h n show "decode_mesytec_vme_word w =
          zero_initialized\<lparr>word := w, header_found := True,
            data_length := ucast (w AND 0x000003FF),
            module_id := ucast ((w AND 0x00FF0000) div 0x10000),
            module_setting := ucast ((w AND 0x0000FC00) div 0x400)\<rparr>"
    by (simp add: decode_record zero_initialized_def)
next
  assume k: "decoded_kind w = DataWord"
  then have d: "w AND 0xF0000000 = 0x10000000 \<or> w AND 0xFF800000 = 0x04000000"
    by (simp add: kind_iff)
  have n: "w AND 0xC0000000 \<noteq> 0x40000000" "w AND 0xFF800000 \<noteq> 0x04800000"
    "w AND 0xC0000000 \<noteq> 0xC0000000" "w \<noteq> 0"
    using d header_excl [of w] ext_ts_excl [of w] eoe_excl [of w] fill_excl by auto
  from n show "\<not> header_found (decode_mesytec_vme_word w)" by (simp add: decode_flags)
  from n show "\<not> extended_ts_found (decode_mesytec_vme_word w)" by (simp add: decode_flags)
  from n show "\<not> eoe_found (decode_mesytec_vme_word w)" by (simp add: decode_flags)
  from d n show "decode_mesytec_vme_word w =
          zero_initialized\<lparr>word := w, data_found := True,
            channel_address := ucast ((w AND 0x003F0000) div 0x0010000),
            mdpp_flags := ucast ((w AND 0x0FC00000) div 0x0040000)\<rparr>"
    by (simp add: decode_record zero_initialized_def)
next
  assume "decoded_kind w = ExtendedTimestamp"
  then have x: "w AND 0xFF800000 = 0x04800000" by (simp add: kind_iff)
  have n: "w AND 0xC0000000 \<noteq> 0x40000000" "w AND 0xF0000000 \<noteq> 0x10000000"
    "w AND 0xFF800000 \<noteq> 0x04000000" "w AND 0xC0000000 \<noteq> 0xC0000000" "w \<noteq> 0"
    using x header_excl [of w] ext_ts_excl [of w] eoe_excl [of w] by auto
  from n show "\<not> header_found (decode_mesytec_vme_word w)" by (simp add: decode_flags)
  from n show "\<not> data_found (decode_mesytec_vme_word w)" by (simp add: decode_flags)
  from n show "\<not> eoe_found (decode_mesytec_vme_word w)" by (simp add: decode_flags)
  from x n show "decode_mesytec_vme_word w =
          zero_initialized\<lparr>word := w, extended_ts_found := True,
            high_stamp := ucast (w AND 0x0000FFFF)\<rparr>"
    by (simp add: decode_record zero_initialized_def)
next
  assume "decoded_kind w = EndOfEvent"
  then have e: "w AND 0xC0000000 = 0xC0000000" by (simp add: kind_iff)
  note n = eoe_excl [OF e]
  from n show "\<not> header_found (decode_mesytec_vme_word w)" by (simp add: decode_flags)
  from n show "\<not> data_found (decode_mesytec_vme_word w)" by (simp add: decode_flags)
  from n show "\<not> extended_ts_found (decode_mesytec_vme_word w)" by (simp add: decode_flags)
  from e n show "decode_mesytec_vme_word w =
          zero_initialized\<lparr>word := w, eoe_found := True,
            low_stamp := w AND 0x3FFFFFFF\<rparr>"
    by (simp add: decode_record zero_initialized_def)
next
  assume "decoded_kind w = FillWord"
  then have f: "w = 0" by (simp add: kind_iff)
  from f show "\<not> header_found (decode_mesytec_vme_word w)" by (simp add: decode_flags)
  from f show "\<not> data_found (decode_mesytec_vme_word w)" by (simp add: decode_flags)
  from f show "\<not> extended_ts_found (decode_mesytec_vme_word w)" by (simp add: decode_flags)
  from f show "\<not> eoe_found (decode_mesytec_vme_word w)" by (simp add: decode_flags)
  from f show "decode_mesytec_vme_word w =
          zero_initialized\<lparr>word := w, fill_word_found := True\<rparr>"
    by (simp add: decode_record zero_initialized_def)
next
  assume "decoded_kind w = Unrecognized"
  then have n: "w AND 0xC0000000 \<noteq> 0x40000000" "w AND 0xF0000000 \<noteq> 0x10000000"
    "w AND 0xFF800000 \<noteq> 0x04000000" "w AND 0xFF800000 \<noteq> 0x04800000"
    "w AND 0xC0000000 \<noteq> 0xC0000000" "w \<noteq> 0"
    by (simp_all add: decoded_kind_chain split: if_splits)
  from n show "\<not> header_found (decode_mesytec_vme_word w)" by (simp add: decode_flags)
  from n show "\<not> data_found (decode_mesytec_vme_word w)" by (simp add: decode_flags)
  from n show "\<not> extended_ts_found (decode_mesytec_vme_word w)" by (simp add: decode_flags)
  from n show "\<not> eoe_found (decode_mesytec_vme_word w)" by (simp add: decode_flags)
  from n show "decode_mesytec_vme_word w = zero_initialized\<lparr>word := w\<rparr>"
    by (simp add: decode_record zero_initialized_def)
qed

text \<open>
  One word of each kind: the members that belong to the other kinds are zero.
\<close>

theorem writes_only_selected_fields_witness:
  "decoded_kind 0x40010c07 = ModuleHeader
   \<and> channel_address (decode_mesytec_vme_word 0x40010c07) = 0
   \<and> mdpp_flags (decode_mesytec_vme_word 0x40010c07) = 0
   \<and> high_stamp (decode_mesytec_vme_word 0x40010c07) = 0
   \<and> low_stamp (decode_mesytec_vme_word 0x40010c07) = 0
   \<and> decoded_kind 0x10100868 = DataWord
   \<and> data_length (decode_mesytec_vme_word 0x10100868) = 0
   \<and> module_id (decode_mesytec_vme_word 0x10100868) = 0
   \<and> module_setting (decode_mesytec_vme_word 0x10100868) = 0
   \<and> high_stamp (decode_mesytec_vme_word 0x10100868) = 0
   \<and> low_stamp (decode_mesytec_vme_word 0x10100868) = 0
   \<and> decoded_kind 0x04800057 = ExtendedTimestamp
   \<and> data_length (decode_mesytec_vme_word 0x04800057) = 0
   \<and> channel_address (decode_mesytec_vme_word 0x04800057) = 0
   \<and> low_stamp (decode_mesytec_vme_word 0x04800057) = 0
   \<and> decoded_kind 0xc18d01bd = EndOfEvent
   \<and> module_id (decode_mesytec_vme_word 0xc18d01bd) = 0
   \<and> mdpp_flags (decode_mesytec_vme_word 0xc18d01bd) = 0
   \<and> high_stamp (decode_mesytec_vme_word 0xc18d01bd) = 0
   \<and> decoded_kind 0x00000000 = FillWord
   \<and> decode_mesytec_vme_word 0x00000000 = zero_initialized\<lparr>fill_word_found := True\<rparr>
   \<and> decoded_kind 0x20000000 = Unrecognized
   \<and> decode_mesytec_vme_word 0x20000000 = zero_initialized\<lparr>word := 0x20000000\<rparr>"
  using writes_only_selected_fields [of "0x40010c07"]
    writes_only_selected_fields [of "0x10100868"]
    writes_only_selected_fields [of "0x04800057"]
    writes_only_selected_fields [of "0xc18d01bd"]
    writes_only_selected_fields [of "0x00000000"]
    writes_only_selected_fields [of "0x20000000"]
  by (simp add: decoded_kind_chain zero_initialized_def)

section \<open>The raw word\<close>

text \<open>
  C10. The returned record carries the raw input unchanged, whichever kind is
  selected: the \<open>word\<close> member of \<open>decode_mesytec_vme_word w\<close> is \<open>w\<close>.
\<close>

theorem decode_preserves_word: "word (decode_mesytec_vme_word w) = w"
  by (simp add: decode_record)

end
